theory Spec2Isabelle
  imports Main
begin

section \<open>Characters\<close>

text \<open>
  A JavaScript string is modelled as a \<open>string\<close>: each \<open>char\<close> stands for one code unit
  below 256. The classes below are the ones the engine's own escapes denote on such code
  units.
\<close>

definition code :: "char \<Rightarrow> nat" where
  "code c = of_char c"

definition in_range :: "char \<Rightarrow> char \<Rightarrow> char \<Rightarrow> bool" where
  "in_range lo hi c = (code lo \<le> code c \<and> code c \<le> code hi)"

definition is_digit :: "char \<Rightarrow> bool" where
  "is_digit c = in_range (CHR ''0'') (CHR ''9'') c"

definition is_lower :: "char \<Rightarrow> bool" where
  "is_lower c = in_range (CHR ''a'') (CHR ''z'') c"

definition is_upper :: "char \<Rightarrow> bool" where
  "is_upper c = in_range (CHR ''A'') (CHR ''Z'') c"

definition is_word :: "char \<Rightarrow> bool" where
  \<comment> \<open>\<open>\w\<close>: letters, digits and the underscore\<close>
  "is_word c = (is_lower c \<or> is_upper c \<or> is_digit c \<or> c = CHR ''_'')"

definition is_space :: "char \<Rightarrow> bool" where
  \<comment> \<open>\<open>\s\<close> and \<open>trim\<close>: tab, line feed, vertical tab, form feed, carriage return,
      space and the no-break space\<close>
  "is_space c = (code c \<in> {9, 10, 11, 12, 13, 32, 160})"

definition to_upper :: "char \<Rightarrow> char" where
  "to_upper c = (if is_lower c then char_of (code c - 32) else c)"

definition to_lower :: "char \<Rightarrow> char" where
  "to_lower c = (if is_upper c then char_of (code c + 32) else c)"

definition canon :: "bool \<Rightarrow> char \<Rightarrow> char" where
  \<comment> \<open>the engine's canonicalisation under the \<open>i\<close> flag, on the code units that can
      equal an ASCII pattern character\<close>
  "canon ic c = (if ic then to_upper c else c)"

text \<open>
  Comparing two characters bit by bit, most significant bit first: the same order as the
  one of their codes, and the form in which the comparison is evaluated.
\<close>

fun bits_le :: "bool list \<Rightarrow> bool list \<Rightarrow> bool" where
  "bits_le [] [] = True"
| "bits_le (a # as) (b # bs) = (if a = b then bits_le as bs else b)"
| "bits_le _ _ = False"

definition bits_val :: "nat \<Rightarrow> bool list \<Rightarrow> nat" where
  "bits_val x bs = foldl (\<lambda>n b. 2 * n + of_bool b) x bs"

definition char_le :: "char \<Rightarrow> char \<Rightarrow> bool" where
  "char_le a b =
     (case a of Char a0 a1 a2 a3 a4 a5 a6 a7 \<Rightarrow>
      case b of Char b0 b1 b2 b3 b4 b5 b6 b7 \<Rightarrow>
        bits_le [a7, a6, a5, a4, a3, a2, a1, a0] [b7, b6, b5, b4, b3, b2, b1, b0])"

section \<open>Regular expressions with backtracking\<close>

datatype citem =
    Ch char
  | Rng char char
  | WordCls
  | SpaceCls

datatype re =
    Eps
  | Lit char
  | Cls bool "citem list"
  | Seq re re
  | Alt re re
  | Rep nat "nat option" re
  | WordB
  | NegLook re
  | Bol
  | Eol

text \<open>
  \<open>Cls neg items\<close> is a bracket class, negated when \<open>neg\<close> holds. \<open>Rep lo hi r\<close> is a
  greedy quantifier with at least \<open>lo\<close> and at most \<open>hi\<close> iterations (\<open>None\<close>: no upper
  bound). \<open>WordB\<close> is \<open>\b\<close>, \<open>NegLook r\<close> is \<open>(?!r)\<close>, \<open>Bol\<close> and \<open>Eol\<close> are \<open>^\<close> and
  \<open>$\<close> without the multiline flag.
\<close>

fun in_item :: "bool \<Rightarrow> citem \<Rightarrow> char \<Rightarrow> bool" where
  "in_item ic (Ch c) x = (canon ic x = canon ic c)"
| "in_item ic (Rng lo hi) x =
     (in_range lo hi x \<or> (ic \<and> (in_range lo hi (to_upper x) \<or> in_range lo hi (to_lower x))))"
| "in_item ic WordCls x = is_word x"
| "in_item ic SpaceCls x = is_space x"

definition in_cls :: "bool \<Rightarrow> citem list \<Rightarrow> char \<Rightarrow> bool" where
  "in_cls ic items x = list_ex (\<lambda>i. in_item ic i x) items"

text \<open>
  A matcher state is the character before the current position (\<open>None\<close> at the start of
  the input) and the input still ahead. A matcher returns every state it can end in, in
  the order in which the backtracking engine tries them: the head of the list is the
  engine's match, the empty list is failure.
\<close>

type_synonym mstate = "char option \<times> string"

definition word_before :: "mstate \<Rightarrow> bool" where
  "word_before st = (case fst st of None \<Rightarrow> False | Some c \<Rightarrow> is_word c)"

definition word_after :: "mstate \<Rightarrow> bool" where
  "word_after st = (case snd st of [] \<Rightarrow> False | c # _ \<Rightarrow> is_word c)"

fun dec :: "nat option \<Rightarrow> nat option" where
  "dec None = None"
| "dec (Some k) = Some (k - 1)"

function iter :: "(mstate \<Rightarrow> mstate list) \<Rightarrow> nat \<Rightarrow> nat option \<Rightarrow> mstate \<Rightarrow> mstate list" where
  "iter f 0 hi st =
     (if hi = Some 0 then [st]
      else concat (map (iter f 0 (dec hi))
             (filter (\<lambda>st'. length (snd st') < length (snd st)) (f st))) @ [st])"
| "iter f (Suc n) hi st = concat (map (iter f n (dec hi)) (f st))"
  by pat_completeness auto
termination
  by (relation "measures [\<lambda>(f, lo, hi, st). lo, \<lambda>(f, lo, hi, st). length (snd st)]") auto

primrec m :: "re \<Rightarrow> bool \<Rightarrow> mstate \<Rightarrow> mstate list" where
  "m Eps ic st = [st]"
| "m (Lit c) ic st =
     (case snd st of [] \<Rightarrow> []
      | x # xs \<Rightarrow> if canon ic x = canon ic c then [(Some x, xs)] else [])"
| "m (Cls neg items) ic st =
     (case snd st of [] \<Rightarrow> []
      | x # xs \<Rightarrow> if in_cls ic items x \<noteq> neg then [(Some x, xs)] else [])"
| "m (Seq a b) ic st = concat (map (m b ic) (m a ic st))"
| "m (Alt a b) ic st = m a ic st @ m b ic st"
| "m (Rep lo hi r) ic st = iter (m r ic) lo hi st"
| "m WordB ic st = (if word_before st \<noteq> word_after st then [st] else [])"
| "m (NegLook r) ic st = (if m r ic st = [] then [st] else [])"
| "m Bol ic st = (if fst st = None then [st] else [])"
| "m Eol ic st = (if snd st = [] then [st] else [])"

text \<open>
  \<open>String.prototype.match\<close> with a global pattern: the matches from left to right, each
  search resuming where the last match ended (one further on after an empty match).
  No match at all gives \<open>null\<close> in the source, over which nothing is iterated: the empty
  list here.
\<close>

function match_from :: "re \<Rightarrow> bool \<Rightarrow> char option \<Rightarrow> string \<Rightarrow> string list" where
  "match_from r ic p s =
     (case m r ic (p, s) of
        [] \<Rightarrow> (case s of [] \<Rightarrow> [] | x # xs \<Rightarrow> match_from r ic (Some x) xs)
      | st # _ \<Rightarrow>
          if length (snd st) < length s
          then take (length s - length (snd st)) s # match_from r ic (fst st) (snd st)
          else [] # (case s of [] \<Rightarrow> [] | x # xs \<Rightarrow> match_from r ic (Some x) xs))"
  by pat_completeness auto
termination
  by (relation "measure (\<lambda>(r, ic, p, s). length s)") auto

definition match_global :: "re \<Rightarrow> bool \<Rightarrow> string \<Rightarrow> string list" where
  "match_global r ic text = match_from r ic None text"

text \<open>
  \<open>String.prototype.replace\<close> with a pattern and a replacement text that has no \<open>$\<close>
  in it: with the global flag every match is replaced, without it the first one only.
\<close>

function replace_from :: "re \<Rightarrow> bool \<Rightarrow> string \<Rightarrow> char option \<Rightarrow> string \<Rightarrow> string" where
  "replace_from r ic rep p s =
     (case m r ic (p, s) of
        [] \<Rightarrow> (case s of [] \<Rightarrow> [] | x # xs \<Rightarrow> x # replace_from r ic rep (Some x) xs)
      | st # _ \<Rightarrow>
          if length (snd st) < length s
          then rep @ replace_from r ic rep (fst st) (snd st)
          else rep @ (case s of [] \<Rightarrow> [] | x # xs \<Rightarrow> x # replace_from r ic rep (Some x) xs))"
  by pat_completeness auto
termination
  by (relation "measure (\<lambda>(r, ic, rep, p, s). length s)") auto

definition replace_global :: "re \<Rightarrow> bool \<Rightarrow> string \<Rightarrow> string \<Rightarrow> string" where
  "replace_global r ic rep text = replace_from r ic rep None text"

fun replace_first_from :: "re \<Rightarrow> bool \<Rightarrow> string \<Rightarrow> char option \<Rightarrow> string \<Rightarrow> string" where
  "replace_first_from r ic rep p [] = (case m r ic (p, []) of [] \<Rightarrow> [] | st # _ \<Rightarrow> rep)"
| "replace_first_from r ic rep p (x # xs) =
     (case m r ic (p, x # xs) of
        [] \<Rightarrow> x # replace_first_from r ic rep (Some x) xs
      | st # _ \<Rightarrow> rep @ snd st)"

definition replace_first :: "re \<Rightarrow> bool \<Rightarrow> string \<Rightarrow> string \<Rightarrow> string" where
  "replace_first r ic rep text = replace_first_from r ic rep None text"

text \<open>\<open>RegExp.prototype.test\<close> without the global flag: is there a match anywhere.\<close>

fun test_from :: "re \<Rightarrow> bool \<Rightarrow> char option \<Rightarrow> string \<Rightarrow> bool" where
  "test_from r ic p [] = (m r ic (p, []) \<noteq> [])"
| "test_from r ic p (x # xs) = (m r ic (p, x # xs) \<noteq> [] \<or> test_from r ic (Some x) xs)"

definition test :: "re \<Rightarrow> bool \<Rightarrow> string \<Rightarrow> bool" where
  "test r ic text = test_from r ic None text"

definition trim :: "string \<Rightarrow> string" where
  "trim s = rev (dropWhile is_space (rev (dropWhile is_space s)))"

definition startsWith :: "string \<Rightarrow> string \<Rightarrow> bool" where
  "startsWith s pre = (take (length pre) s = pre)"

section \<open>Building patterns\<close>

fun seqs :: "re list \<Rightarrow> re" where
  "seqs [] = Eps"
| "seqs [r] = r"
| "seqs (r # rs) = Seq r (seqs rs)"

fun alts :: "re list \<Rightarrow> re" where
  "alts [] = Cls False []"
| "alts [r] = r"
| "alts (r # rs) = Alt r (alts rs)"

definition lits :: "string \<Rightarrow> re" where
  "lits s = seqs (map Lit s)"

definition opt :: "re \<Rightarrow> re" where
  "opt r = Rep 0 (Some 1) r"

definition star :: "re \<Rightarrow> re" where
  "star r = Rep 0 None r"

definition plus :: "re \<Rightarrow> re" where
  "plus r = Rep 1 None r"

definition times :: "nat \<Rightarrow> re \<Rightarrow> re" where
  "times n r = Rep n (Some n) r"

definition digit :: re where
  "digit = Cls False [Rng (CHR ''0'') (CHR ''9'')]"

definition hex :: re where
  \<comment> \<open>\<open>[0-9a-fA-F]\<close>\<close>
  "hex = Cls False [Rng (CHR ''0'') (CHR ''9''), Rng (CHR ''a'') (CHR ''f''),
                    Rng (CHR ''A'') (CHR ''F'')]"

definition hash_hex :: re where
  \<comment> \<open>\<open>[a-fA-F0-9]\<close>\<close>
  "hash_hex = Cls False [Rng (CHR ''a'') (CHR ''f''), Rng (CHR ''A'') (CHR ''F''),
                         Rng (CHR ''0'') (CHR ''9'')]"

definition octet :: re where
  \<comment> \<open>\<open>(?:25[0-5]|2[0-4][0-9]|[01]?[0-9][0-9]?)\<close>\<close>
  "octet = alts
     [seqs [lits ''25'', Cls False [Rng (CHR ''0'') (CHR ''5'')]],
      seqs [Lit (CHR ''2''), Cls False [Rng (CHR ''0'') (CHR ''4'')], digit],
      seqs [opt (Cls False [Ch (CHR ''0''), Ch (CHR ''1'')]), digit, opt digit]]"

definition prefix4 :: re where
  \<comment> \<open>\<open>(?:[0-9]|[12][0-9]|3[0-2])\<close>\<close>
  "prefix4 = alts
     [digit,
      seqs [Cls False [Ch (CHR ''1''), Ch (CHR ''2'')], digit],
      seqs [Lit (CHR ''3''), Cls False [Rng (CHR ''0'') (CHR ''2'')]]]"

definition prefix6 :: re where
  \<comment> \<open>\<open>(?:[0-9]|[1-9][0-9]|1[01][0-9]|12[0-8])\<close>\<close>
  "prefix6 = alts
     [digit,
      seqs [Cls False [Rng (CHR ''1'') (CHR ''9'')], digit],
      seqs [Lit (CHR ''1''), Cls False [Ch (CHR ''0''), Ch (CHR ''1'')], digit],
      seqs [lits ''12'', Cls False [Rng (CHR ''0'') (CHR ''8'')]]]"

definition hextet :: re where
  \<comment> \<open>\<open>[0-9a-fA-F]{1,4}\<close>\<close>
  "hextet = Rep 1 (Some 4) hex"

definition hextet_colon :: re where
  \<comment> \<open>\<open>(?:[0-9a-fA-F]{1,4}:)\<close>\<close>
  "hextet_colon = Seq hextet (Lit (CHR '':''))"

definition dot_marker :: re where
  \<comment> \<open>\<open>(?:\.|\[\.\]|\(\.\))\<close>\<close>
  "dot_marker = alts [Lit (CHR ''.''), lits ''[.]'', lits ''(.)'']"

definition url_char :: re where
  \<comment> \<open>\<open>[^\s<>"{}|\\^`]\<close>\<close>
  "url_char = Cls True [SpaceCls, Ch (CHR ''<''), Ch (CHR ''>''), Ch (CHR 0x22),
                        Ch (CHR ''{''), Ch (CHR ''}''), Ch (CHR ''|''), Ch (CHR 0x5C),
                        Ch (CHR ''^''), Ch (CHR 0x60)]"

definition extensions :: "string list" where
  "extensions =
     [''exe'', ''dll'', ''bat'', ''cmd'', ''com'', ''pif'', ''scr'', ''vbs'', ''js'', ''jar'',
      ''msi'', ''sys'', ''drv'', ''bin'', ''sh'', ''ps1'', ''app'', ''deb'', ''rpm'', ''dmg'',
      ''pkg'', ''apk'', ''ipa'', ''zip'', ''rar'', ''7z'', ''tar'', ''gz'', ''pdf'', ''doc'',
      ''docx'', ''xls'', ''xlsx'', ''ppt'', ''pptx'', ''txt'', ''log'', ''csv'', ''xml'',
      ''json'', ''html'', ''htm'', ''php'', ''asp'', ''aspx'', ''jsp'', ''py'', ''rb'', ''pl'',
      ''bash'', ''psm1'', ''psd1'', ''vbe'', ''wsf'', ''wsh'', ''jse'', ''war'', ''ear'',
      ''class'', ''iso'', ''img'', ''dat'', ''db'', ''sqlite'', ''mdb'', ''accdb'', ''bak'',
      ''tmp'', ''temp'', ''old'', ''backup'', ''lock'', ''pid'', ''conf'', ''config'', ''ini'',
      ''cfg'', ''yaml'', ''yml'', ''env'', ''properties'', ''key'', ''pem'', ''crt'', ''cert'',
      ''p12'', ''pfx'', ''keystore'', ''truststore'', ''jks'']"

section \<open>The pattern registry\<close>

datatype ioc_type =
    IPV4 | IPV6 | CIDR | DEFANGED_IP | MD5 | SHA1 | SHA256 | SHA512
  | EMAIL | DEFANGED_URL | URL | FILENAME

fun IOC_TYPES :: "ioc_type \<Rightarrow> string" where
  "IOC_TYPES IPV4 = ''IPv4''"
| "IOC_TYPES IPV6 = ''IPv6''"
| "IOC_TYPES CIDR = ''CIDR''"
| "IOC_TYPES DEFANGED_IP = ''Defanged IP''"
| "IOC_TYPES MD5 = ''MD5''"
| "IOC_TYPES SHA1 = ''SHA1''"
| "IOC_TYPES SHA256 = ''SHA256''"
| "IOC_TYPES SHA512 = ''SHA512''"
| "IOC_TYPES EMAIL = ''Email''"
| "IOC_TYPES DEFANGED_URL = ''Defanged URL''"
| "IOC_TYPES URL = ''URL''"
| "IOC_TYPES FILENAME = ''Filename''"

text \<open>
  The source text of each pattern is a list of alternatives separated by \<open>|\<close> at the top
  level; \<open>pattern_alternatives\<close> keeps that list, in the source's order.
\<close>

fun pattern_alternatives :: "ioc_type \<Rightarrow> re list" where
  "pattern_alternatives CIDR =
     [seqs [WordB, times 3 (Seq octet (Lit (CHR ''.''))), octet, Lit (CHR ''/''), prefix4, WordB],
      seqs [WordB, times 7 hextet_colon, hextet, Lit (CHR ''/''), prefix6, WordB],
      seqs [WordB, star hextet_colon, lits ''::'', star hextet_colon, hextet,
            Lit (CHR ''/''), prefix6, WordB]]"
| "pattern_alternatives DEFANGED_IP =
     [seqs [WordB, times 3 (Seq octet dot_marker), octet, WordB]]"
| "pattern_alternatives IPV4 =
     [seqs [WordB, times 3 (Seq octet (Lit (CHR ''.''))), octet,
            NegLook (Lit (CHR ''/'')), WordB]]"
| "pattern_alternatives IPV6 =
     [seqs [WordB, times 7 hextet_colon, hextet, NegLook (Lit (CHR ''/'')), WordB],
      seqs [WordB, star hextet_colon, lits ''::'', star hextet_colon, hextet,
            NegLook (Lit (CHR ''/'')), WordB]]"
| "pattern_alternatives MD5 = [seqs [WordB, times 32 hash_hex, WordB]]"
| "pattern_alternatives SHA1 = [seqs [WordB, times 40 hash_hex, WordB]]"
| "pattern_alternatives SHA256 = [seqs [WordB, times 64 hash_hex, WordB]]"
| "pattern_alternatives SHA512 = [seqs [WordB, times 128 hash_hex, WordB]]"
| "pattern_alternatives EMAIL =
     [seqs [WordB,
            plus (Cls False [Rng (CHR ''a'') (CHR ''z''), Rng (CHR ''A'') (CHR ''Z''),
                             Rng (CHR ''0'') (CHR ''9''), Ch (CHR ''.''), Ch (CHR ''_''),
                             Ch (CHR ''%''), Ch (CHR ''+''), Ch (CHR ''-'')]),
            Lit (CHR ''@''),
            plus (Cls False [Rng (CHR ''a'') (CHR ''z''), Rng (CHR ''A'') (CHR ''Z''),
                             Rng (CHR ''0'') (CHR ''9''), Ch (CHR ''.''), Ch (CHR ''-'')]),
            Lit (CHR ''.''),
            Rep 2 None (Cls False [Rng (CHR ''a'') (CHR ''z''), Rng (CHR ''A'') (CHR ''Z'')]),
            WordB]]"
| "pattern_alternatives DEFANGED_URL =
     [seqs [WordB, alts [Seq (lits ''hxxp'') (opt (Lit (CHR ''s''))), lits ''ftxp''],
            lits ''://'', plus url_char],
      seqs [WordB,
            alts [Seq (lits ''http'') (opt (Lit (CHR ''s''))), lits ''ftp'',
                  Seq (lits ''hxxp'') (opt (Lit (CHR ''s''))), lits ''ftxp''],
            lits ''://'', star url_char,
            Cls False [Ch (CHR ''[''), Ch (CHR ''('')], opt (Lit (CHR ''.'')),
            Cls False [Ch (CHR '']''), Ch (CHR '')'')],
            plus url_char]]"
| "pattern_alternatives URL =
     [seqs [WordB, alts [Seq (lits ''http'') (opt (Lit (CHR ''s''))), lits ''ftp''],
            lits ''://'', plus url_char]]"
| "pattern_alternatives FILENAME =
     [seqs [WordB,
            Cls False [WordCls, Ch (CHR ''-''), Ch (CHR ''_'')],
            star (Cls False [WordCls, Ch (CHR ''-''), Ch (CHR ''_''), Ch (CHR ''.'')]),
            Lit (CHR ''.''), alts (map lits extensions), WordB]]"

definition IOC_PATTERNS :: "ioc_type \<Rightarrow> re" where
  "IOC_PATTERNS ty = alts (pattern_alternatives ty)"

definition ignoreCase :: "ioc_type \<Rightarrow> bool" where
  \<comment> \<open>every pattern has the flag \<open>g\<close>; the Filename pattern has \<open>gi\<close>\<close>
  "ignoreCase ty = (ty = FILENAME)"

section \<open>Normalizers\<close>

definition spaces :: re where
  "spaces = star (Cls False [SpaceCls])"

definition dot_markers :: "string \<Rightarrow> string" where
  \<comment> \<open>the six marker replacements both normalizers end with, in the source's order\<close>
  "dot_markers s0 =
     (let s1 = replace_global (lits ''[.]'') False ''.'' s0;
          s2 = replace_global (lits ''(.)'') False ''.'' s1;
          s3 = replace_global (lits ''[dot]'') True ''.'' s2;
          s4 = replace_global (lits ''(dot)'') True ''.'' s3;
          s5 = replace_global
                 (seqs [Lit (CHR ''[''), spaces, Lit (CHR ''.''), spaces, Lit (CHR '']'')])
                 False ''.'' s4;
          s6 = replace_global
                 (seqs [Lit (CHR ''(''), spaces, Lit (CHR ''.''), spaces, Lit (CHR '')'')])
                 False ''.'' s5
      in s6)"

definition normalizeDefangedIP :: "string \<Rightarrow> string" where
  "normalizeDefangedIP defangedIP = dot_markers defangedIP"

definition normalizeDefangedURL :: "string \<Rightarrow> string" where
  "normalizeDefangedURL defangedUrl =
     (let n1 = replace_first (Seq Bol (lits ''hxxp://'')) True ''http://'' defangedUrl;
          n2 = replace_first (Seq Bol (lits ''hxxps://'')) True ''https://'' n1;
          n3 = replace_first (Seq Bol (lits ''ftxp://'')) True ''ftp://'' n2
      in dot_markers n3)"

section \<open>Scanning\<close>

text \<open>
  A record of the output. The source also gives each record an \<open>id\<close> built from the
  clock and a random number; it is left out here.
\<close>

record ioc =
  type :: ioc_type
  "value" :: string
  originalValue :: "string option"

definition detectionOrder :: "ioc_type list" where
  "detectionOrder =
     [CIDR, DEFANGED_IP, IPV4, IPV6, MD5, SHA1, SHA256, SHA512, EMAIL, DEFANGED_URL, URL,
      FILENAME]"

text \<open>
  The scan's state: \<open>detectedIOCs\<close> and \<open>foundValues\<close>. The latter is a JavaScript
  \<open>Set\<close>: a list in insertion order here, \<open>has\<close> is membership and \<open>add\<close> appends
  what is not yet there.
\<close>

type_synonym scan_state = "ioc list \<times> string list"

definition add :: "string \<Rightarrow> string list \<Rightarrow> string list" where
  "add v found = (if v \<in> set found then found else found @ [v])"

definition isPartOfCIDR :: "ioc_type \<Rightarrow> string \<Rightarrow> string list \<Rightarrow> bool" where
  "isPartOfCIDR ty normalizedMatch found =
     ((ty = IPV4 \<or> ty = IPV6) \<and>
      list_ex (\<lambda>foundValue. CHR ''/'' \<in> set foundValue \<and>
                 startsWith foundValue (normalizedMatch @ ''/'')) found)"

definition finalValue :: "ioc_type \<Rightarrow> string \<Rightarrow> string" where
  "finalValue ty normalizedMatch =
     (if ty = DEFANGED_URL then normalizeDefangedURL normalizedMatch
      else if ty = DEFANGED_IP then normalizeDefangedIP normalizedMatch
      else normalizedMatch)"

definition wasDefanged :: "string \<Rightarrow> string \<Rightarrow> string list \<Rightarrow> bool" where
  "wasDefanged normalizedMatch final found =
     list_ex (\<lambda>foundValue. foundValue = normalizedMatch \<or> foundValue = final) found"

definition on_match :: "ioc_type \<Rightarrow> scan_state \<Rightarrow> string \<Rightarrow> scan_state" where
  \<comment> \<open>the body of \<open>matches.forEach\<close>\<close>
  "on_match ty st match =
     (let detectedIOCs = fst st; foundValues = snd st; normalizedMatch = trim match in
      if length normalizedMatch > 2 \<and> normalizedMatch \<notin> set foundValues then
        if \<not> isPartOfCIDR ty normalizedMatch foundValues then
          let final = finalValue ty normalizedMatch in
          if ty = URL \<and> wasDefanged normalizedMatch final foundValues then st
          else if (ty = IPV4 \<or> ty = IPV6) \<and> wasDefanged normalizedMatch final foundValues
          then st
          else if final \<notin> set foundValues \<and> normalizedMatch \<notin> set foundValues then
            (detectedIOCs @
               [\<lparr>type = ty, value = final,
                 originalValue = (if ty = DEFANGED_URL \<or> ty = DEFANGED_IP
                                  then Some normalizedMatch else None)\<rparr>],
             add normalizedMatch (add final foundValues))
          else st
        else st
      else st)"

definition on_type :: "string \<Rightarrow> scan_state \<Rightarrow> ioc_type \<Rightarrow> scan_state" where
  \<comment> \<open>the body of \<open>detectionOrder.forEach\<close>\<close>
  "on_type text st ty =
     foldl (on_match ty) st (match_global (IOC_PATTERNS ty) (ignoreCase ty) text)"

definition detectIOCs :: "string \<Rightarrow> ioc list" where
  "detectIOCs text = fst (foldl (on_type text) ([], []) detectionOrder)"

section \<open>The single-value validator\<close>

text \<open>
  \<open>validateIOC\<close> takes the type as a string and looks it up in the registry object.
  A name of the registry gives its pattern, any other name gives \<open>undefined\<close>, except the
  names every object inherits: those give a value that is not a pattern, whose \<open>source\<close>
  is \<open>undefined\<close>, and the call of \<open>replace\<close> on it raises.
\<close>

datatype js_error = TypeError

datatype lookup = Own ioc_type | Inherited | Undefined

definition inherited_names :: "string list" where
  "inherited_names =
     [''constructor'', ''hasOwnProperty'', ''isPrototypeOf'', ''propertyIsEnumerable'',
      ''toLocaleString'', ''toString'', ''valueOf'', ''__proto__'', ''__defineGetter__'',
      ''__defineSetter__'', ''__lookupGetter__'', ''__lookupSetter__'']"

definition registry_lookup :: "string \<Rightarrow> lookup" where
  "registry_lookup name =
     (case filter (\<lambda>ty. IOC_TYPES ty = name) detectionOrder of
        ty # _ \<Rightarrow> Own ty
      | [] \<Rightarrow> if name \<in> set inherited_names then Inherited else Undefined)"

text \<open>
  The validator's pattern is built from the text of the registry's pattern: every letter
  \<open>g\<close>, \<open>i\<close>, \<open>m\<close>, \<open>u\<close>, \<open>y\<close> of that text is deleted, \<open>^\<close> is put before it and
  \<open>$\<close> after it, and the result is compiled with no flag. In the registry these letters
  occur as literal characters only, so deleting them deletes those literals; and since
  \<open>|\<close> binds weaker than juxtaposition, \<open>^\<close> belongs to the first alternative and \<open>$\<close>
  to the last.
\<close>

definition flag_letter :: "char \<Rightarrow> bool" where
  "flag_letter c = (c \<in> set ''gimuy'')"

primrec strip_flag_letters :: "re \<Rightarrow> re" where
  "strip_flag_letters Eps = Eps"
| "strip_flag_letters (Lit c) = (if flag_letter c then Eps else Lit c)"
| "strip_flag_letters (Cls neg items) =
     Cls neg (filter (\<lambda>i. case i of Ch c \<Rightarrow> \<not> flag_letter c | _ \<Rightarrow> True) items)"
| "strip_flag_letters (Seq a b) = Seq (strip_flag_letters a) (strip_flag_letters b)"
| "strip_flag_letters (Alt a b) = Alt (strip_flag_letters a) (strip_flag_letters b)"
| "strip_flag_letters (Rep lo hi r) = Rep lo hi (strip_flag_letters r)"
| "strip_flag_letters WordB = WordB"
| "strip_flag_letters (NegLook r) = NegLook (strip_flag_letters r)"
| "strip_flag_letters Bol = Bol"
| "strip_flag_letters Eol = Eol"

fun anchor_last :: "re list \<Rightarrow> re list" where
  "anchor_last [] = []"
| "anchor_last [r] = [Seq r Eol]"
| "anchor_last (r # rs) = r # anchor_last rs"

fun anchor :: "re list \<Rightarrow> re list" where
  "anchor [] = []"
| "anchor (r # rs) = anchor_last (Seq Bol r # rs)"

definition validate_pattern :: "ioc_type \<Rightarrow> re" where
  "validate_pattern ty = alts (anchor (map strip_flag_letters (pattern_alternatives ty)))"

definition validateIOC :: "string \<Rightarrow> string \<Rightarrow> js_error + bool" where
  "validateIOC v name =
     (case registry_lookup name of
        Undefined \<Rightarrow> Inr False
      | Inherited \<Rightarrow> Inl TypeError
      | Own ty \<Rightarrow> Inr (test (validate_pattern ty) False v))"

section \<open>Inputs of the scenarios\<close>

definition scenario :: string where
  "scenario =
     ''Contact admin@example.com, C2 at hxxp://bad[.]example[.]com/payload.exe, and 8.8.8.8/32''"

section \<open>Evaluating character tests\<close>

lemma bits_val_shift: "bits_val x bs = x * 2 ^ length bs + bits_val 0 bs"
  unfolding bits_val_def
proof (induction bs arbitrary: x)
  case Nil
  show ?case by simp
next
  case (Cons b bs)
  show ?case
    using Cons.IH [of "2 * x + of_bool b"] Cons.IH [of "of_bool b"]
    by (simp add: algebra_simps)
qed

lemma bits_val_bound: "bits_val 0 bs < 2 ^ length bs"
proof (induction bs rule: rev_induct)
  case Nil
  show ?case by (simp add: bits_val_def)
next
  case (snoc b bs)
  then show ?case by (cases b) (simp_all add: bits_val_def)
qed

lemma bits_le_val:
  "length as = length bs \<Longrightarrow> bits_le as bs = (bits_val x as \<le> bits_val x bs)"
proof (induction as bs arbitrary: x rule: bits_le.induct)
  case 1
  show ?case by simp
next
  case (2 a as b bs)
  have len: "length as = length bs" using 2 by simp
  show ?case
  proof (cases "a = b")
    case True
    then show ?thesis using 2 by (simp add: bits_val_def)
  next
    case False
    have l: "bits_val (2 * x) as < bits_val (2 * x + 1) bs"
      using bits_val_shift [of "2 * x" as] bits_val_shift [of "2 * x + 1" bs]
        bits_val_bound [of as] len by simp
    have r: "bits_val (2 * x) bs < bits_val (2 * x + 1) as"
      using bits_val_shift [of "2 * x" bs] bits_val_shift [of "2 * x + 1" as]
        bits_val_bound [of bs] len by simp
    show ?thesis
    proof (cases a)
      case True
      with False have "\<not> b" by simp
      with True r show ?thesis by (simp add: bits_val_def)
    next
      case f: False
      with False have b by simp
      with f l show ?thesis by (simp add: bits_val_def)
    qed
  qed
qed simp_all

lemma code_bits:
  "code (Char b0 b1 b2 b3 b4 b5 b6 b7) = bits_val 0 [b7, b6, b5, b4, b3, b2, b1, b0]"
  by (simp add: code_def bits_val_def algebra_simps)

lemma char_le_code: "char_le a b = (code a \<le> code b)"
  by (cases a; cases b) (simp only: char_le_def char.case code_bits, rule bits_le_val, simp)

lemma in_range_code [code]: "in_range lo hi c = (char_le lo c \<and> char_le c hi)"
  by (simp add: in_range_def char_le_code)

lemma to_upper_code [code]:
  "to_upper c =
     (if is_lower c
      then (case c of Char b0 b1 b2 b3 b4 b5 b6 b7 \<Rightarrow> Char b0 b1 b2 b3 b4 False b6 b7)
      else c)"
proof (cases c)
  case (Char b0 b1 b2 b3 b4 b5 b6 b7)
  show ?thesis
    unfolding Char
    by (cases b0; cases b1; cases b2; cases b3; cases b4; cases b5; cases b6; cases b7;
        simp add: to_upper_def is_lower_def in_range_def code_def char_of_def bit_Suc_0_iff)
qed

lemma to_lower_code [code]:
  "to_lower c =
     (if is_upper c
      then (case c of Char b0 b1 b2 b3 b4 b5 b6 b7 \<Rightarrow> Char b0 b1 b2 b3 b4 True b6 b7)
      else c)"
proof (cases c)
  case (Char b0 b1 b2 b3 b4 b5 b6 b7)
  show ?thesis
    unfolding Char
    by (cases b0; cases b1; cases b2; cases b3; cases b4; cases b5; cases b6; cases b7;
        simp add: to_lower_def is_upper_def in_range_def code_def char_of_def bit_Suc_0_iff)
qed

lemma is_space_code [code]:
  "is_space c = (in_range (CHR 0x09) (CHR 0x0D) c \<or> c = CHR 0x20 \<or> c = CHR 0xA0)"
proof (cases c)
  case (Char b0 b1 b2 b3 b4 b5 b6 b7)
  show ?thesis
    unfolding Char
    by (cases b0; cases b1; cases b2; cases b3; cases b4; cases b5; cases b6; cases b7;
        simp add: is_space_def in_range_def code_def)
qed

section \<open>The scenario of the specification\<close>

lemma detect_scenario:
  "detectIOCs scenario =
     [\<lparr>type = CIDR, value = ''8.8.8.8/32'', originalValue = None\<rparr>,
      \<lparr>type = DEFANGED_IP, value = ''8.8.8.8'', originalValue = Some ''8.8.8.8''\<rparr>,
      \<lparr>type = EMAIL, value = ''admin@example.com'', originalValue = None\<rparr>,
      \<lparr>type = DEFANGED_URL, value = ''http://bad.example.com/payload.exe,'',
        originalValue = Some ''hxxp://bad[.]example[.]com/payload.exe,''\<rparr>,
      \<lparr>type = FILENAME, value = ''example.com'', originalValue = None\<rparr>,
      \<lparr>type = FILENAME, value = ''payload.exe'', originalValue = None\<rparr>]"
  by code_simp

text \<open>
  C1, as stated, fails: on the scenario input the scan does not yield exactly the three
  records Email \<open>admin@example.com\<close>, Defanged-URL \<open>http://bad.example.com/payload.exe\<close>
  (as found: \<open>hxxp://bad[.]example[.]com/payload.exe\<close>) and CIDR \<open>8.8.8.8/32\<close>.
\<close>

theorem scenario_not_three_records:
  "\<not> (length (detectIOCs scenario) = 3 \<and>
      set (detectIOCs scenario) =
        {\<lparr>type = EMAIL, value = ''admin@example.com'', originalValue = None\<rparr>,
         \<lparr>type = DEFANGED_URL, value = ''http://bad.example.com/payload.exe'',
           originalValue = Some ''hxxp://bad[.]example[.]com/payload.exe''\<rparr>,
         \<lparr>type = CIDR, value = ''8.8.8.8/32'', originalValue = None\<rparr>})"
  by (simp add: detect_scenario)

text \<open>
  C1, amended: leaving the records of type Defanged IP aside, the scan of the scenario
  input yields exactly five records, in this order: CIDR \<open>8.8.8.8/32\<close>; Email
  \<open>admin@example.com\<close>; Defanged-URL with value \<open>http://bad.example.com/payload.exe,\<close>
  and as-found text \<open>hxxp://bad[.]example[.]com/payload.exe,\<close>, both ending in the comma
  that follows the URL in the input; Filename \<open>example.com\<close>; Filename \<open>payload.exe\<close>.
  None of them has the type IPv4 or URL.
\<close>

theorem scenario_records:
  "filter (\<lambda>r. type r \<noteq> DEFANGED_IP) (detectIOCs scenario) =
     [\<lparr>type = CIDR, value = ''8.8.8.8/32'', originalValue = None\<rparr>,
      \<lparr>type = EMAIL, value = ''admin@example.com'', originalValue = None\<rparr>,
      \<lparr>type = DEFANGED_URL, value = ''http://bad.example.com/payload.exe,'',
        originalValue = Some ''hxxp://bad[.]example[.]com/payload.exe,''\<rparr>,
      \<lparr>type = FILENAME, value = ''example.com'', originalValue = None\<rparr>,
      \<lparr>type = FILENAME, value = ''payload.exe'', originalValue = None\<rparr>]"
  by (simp add: detect_scenario)

section \<open>An e-mail address and its domain\<close>

text \<open>
  C10: on the input \<open>admin@example.com\<close> the scan emits the Email record and, after it,
  a Filename record with value \<open>example.com\<close>: the Filename pattern matches the
  domain after the \<open>@\<close>, whose last label \<open>com\<close> is one of its extensions.
\<close>

theorem email_domain_is_filename:
  "detectIOCs ''admin@example.com'' =
     [\<lparr>type = EMAIL, value = ''admin@example.com'', originalValue = None\<rparr>,
      \<lparr>type = FILENAME, value = ''example.com'', originalValue = None\<rparr>]"
  by code_simp

end
